theory Spec2Isabelle
  imports Main
begin

section \<open>Values\<close>

text \<open>
  Exceptions are values. \<open>KeyError\<close> and \<open>IndexError\<close> are raised by the interpreter in
  \<open>user.py\<close> itself. \<open>Raised\<close> is an exception thrown by a collaborator (the remote
  client, the puppet or the portal) that is an instance of Python's \<open>Exception\<close>.
  \<open>BaseRaised\<close> is one that is a \<open>BaseException\<close> but not an \<open>Exception\<close>:
  \<open>asyncio.CancelledError\<close> when the awaiting task is cancelled, \<open>KeyboardInterrupt\<close>,
  \<open>SystemExit\<close>. An \<open>except Exception\<close> clause catches the first three kinds and lets
  the last through.
\<close>

datatype error = KeyError | IndexError | Raised string | BaseRaised string

fun is_exception :: "error \<Rightarrow> bool" where
  "is_exception (BaseRaised _) = False"
| "is_exception _ = True"

text \<open>What \<open>is_logged_in\<close> can return: the object left of \<open>and\<close>, or a boolean.\<close>

datatype pyval = PyNone | PyBool bool

fun truthy :: "pyval \<Rightarrow> bool" where
  "truthy PyNone = False"
| "truthy (PyBool b) = b"

text \<open>Python truthiness of an \<open>Optional[int]\<close> and of an \<open>Optional[str]\<close>.\<close>

definition int_truthy :: "int option \<Rightarrow> bool" where
  "int_truthy t = (case t of None \<Rightarrow> False | Some n \<Rightarrow> n \<noteq> 0)"

definition str_truthy :: "string option \<Rightarrow> bool" where
  "str_truthy s = (case s of None \<Rightarrow> False | Some x \<Rightarrow> x \<noteq> [])"

text \<open>\<open>a or b\<close> on optional strings.\<close>

definition py_or :: "string option \<Rightarrow> string option \<Rightarrow> string option" where
  "py_or a b = (if str_truthy a then a else b)"

section \<open>Data model\<close>

text \<open>
  A \<open>User\<close> object. \<open>client\<close> is a reference into the store of \<open>TwitterAPI\<close>
  objects, or \<open>None\<close>.
\<close>

record user =
  mxid :: string
  twid :: "int option"
  auth_token :: "string option"
  csrf_token :: "string option"
  poll_cursor :: "string option"
  notice_room :: "string option"
  is_whitelisted :: bool
  is_admin :: bool
  permission_level :: string
  client :: "nat option"
  username :: "string option"

datatype event_kind =
  Conversation | TwitterUser | MessageEntry | ReactionCreateEntry | ReactionDeleteEntry

datatype handler =
  HandleConversationUpdate | HandleUserUpdate | HandleMessage | HandleReaction

text \<open>
  The \<open>TwitterAPI\<close> object of the library \<open>mautwitdm\<close>, as far as \<open>user.py\<close> reads
  and writes it: the node id and poll cursor, the token pair set by \<open>set_tokens\<close>, the
  handlers added by \<open>add_handler\<close> (each a bound method of a \<open>User\<close> object), and
  whether \<open>start\<close> has been called without a later \<open>stop\<close>. Such an object is
  truthy, so \<open>if self.client\<close> tests the reference against \<open>None\<close>.
\<close>

record twitter_api =
  node_id :: int
  api_poll_cursor :: "string option"
  tokens :: "string option \<times> string option"
  handlers :: "(event_kind \<times> handler \<times> nat) list"
  running :: bool

text \<open>The persisted record of a user (the columns passed to \<open>DBUser.__init__\<close>).\<close>

record db_row =
  row_mxid :: string
  row_twid :: "int option"
  row_auth_token :: "string option"
  row_csrf_token :: "string option"
  row_poll_cursor :: "string option"
  row_notice_room :: "string option"

record puppet =
  puppet_twid :: "int option"
  is_real_user :: bool

record conversation =
  conv_id :: string
  conv_type :: string

record message_entry =
  conversation_id :: string
  conversation :: conversation
  message_data :: string
  request_id :: string

type_synonym portal_key = "string \<times> int option \<times> string"

record portal =
  portal_mxid :: "string option"
  delivered :: "(string \<times> string) list"

text \<open>The log of calls made to the collaborators, in the order they were made.\<close>

datatype call =
    ClientGetUserIdentifier "string option \<times> string option"
  | ClientGetSettings nat
  | ClientLookupUsers nat "string list"
  | ClientStart nat
  | ClientStop nat
  | PuppetGetByTwid "int option"
  | PuppetSwitchMxid "int option"
  | PortalGetByTwid portal_key
  | PortalCreateMatrixRoom portal_key nat
  | PortalHandleTwitterMessage portal_key nat string string
  | DbGetByMxid string
  | DbGetByTwid int
  | DbAllLoggedIn
  | DbInsert string
  | DbUpdate string

text \<open>
  The whole program state: the store of \<open>User\<close> objects and of \<open>TwitterAPI\<close> objects
  (a reference is a number, a new object takes the next free one), the two class-level
  dictionaries \<open>by_mxid\<close> and \<open>by_twid\<close>, the database table, the portals, and the
  call log.
\<close>

record world =
  users :: "nat \<Rightarrow> user"
  next_user :: nat
  clients :: "nat \<Rightarrow> twitter_api"
  next_client :: nat
  by_mxid :: "string \<rightharpoonup> nat"
  by_twid :: "int \<rightharpoonup> nat"
  database :: "db_row list"
  portals :: "portal_key \<rightharpoonup> portal"
  calls :: "call list"

text \<open>
  What the collaborators answer. Each awaited call either returns or raises. The remote
  service answers a request from the tokens it is sent.
\<close>

record env =
  get_permissions :: "string \<Rightarrow> bool \<times> bool \<times> string"
  hash_mxid :: "string \<Rightarrow> int"
  get_user_identifier :: "string option \<times> string option \<Rightarrow> error + string option"
  get_settings :: "string option \<times> string option \<Rightarrow> error + (string \<rightharpoonup> string)"
  lookup_users :: "string list \<Rightarrow> error + int list"
  puppet_get_by_twid :: "int option \<Rightarrow> error + puppet option"
  switch_mxid :: "puppet \<Rightarrow> error + unit"
  portal_get_error :: "portal_key \<Rightarrow> error option"
  create_matrix_room :: "portal_key \<Rightarrow> error + string"
  handle_twitter_message_error :: "portal_key \<Rightarrow> string \<Rightarrow> string \<Rightarrow> error option"

section \<open>Persistence\<close>

definition row_of :: "user \<Rightarrow> db_row" where
  "row_of u = \<lparr>row_mxid = mxid u, row_twid = twid u, row_auth_token = auth_token u,
     row_csrf_token = csrf_token u, row_poll_cursor = poll_cursor u,
     row_notice_room = notice_room u\<rparr>"

text \<open>
  Modelled from the spec: the base class \<open>DBUser\<close> of module \<open>.db\<close> is not part of the
  source at hand. The spec gives one persisted record per Session, keyed uniquely by the
  local id, with lookups by local id and by remote id, and an enumeration of the records
  with non-empty credentials. \<open>update\<close> rewrites the record of that local id,
  \<open>insert\<close> adds a record.
\<close>

definition db_update :: "db_row \<Rightarrow> db_row list \<Rightarrow> db_row list" where
  "db_update row rows = map (\<lambda>x. if row_mxid x = row_mxid row then row else x) rows"

definition db_insert :: "db_row \<Rightarrow> db_row list \<Rightarrow> db_row list" where
  "db_insert row rows = rows @ [row]"

definition db_get_by_mxid :: "string \<Rightarrow> db_row list \<Rightarrow> db_row option" where
  "db_get_by_mxid m rows = find (\<lambda>x. row_mxid x = m) rows"

definition db_get_by_twid :: "int \<Rightarrow> db_row list \<Rightarrow> db_row option" where
  "db_get_by_twid t rows = find (\<lambda>x. row_twid x = Some t) rows"

definition db_all_logged_in :: "db_row list \<Rightarrow> db_row list" where
  "db_all_logged_in rows =
     filter (\<lambda>x. row_auth_token x \<noteq> None \<and> row_csrf_token x \<noteq> None) rows"

section \<open>The class User\<close>

text \<open>\<open>User.__init__\<close>, called with the columns of a record.\<close>

definition init_user :: "env \<Rightarrow> db_row \<Rightarrow> user" where
  "init_user e row =
     (case get_permissions e (row_mxid row) of (wl, adm, lvl) \<Rightarrow>
        \<lparr>mxid = row_mxid row, twid = row_twid row, auth_token = row_auth_token row,
         csrf_token = row_csrf_token row, poll_cursor = row_poll_cursor row,
         notice_room = row_notice_room row, is_whitelisted = wl, is_admin = adm,
         permission_level = lvl, client = None, username = None\<rparr>)"

text \<open>Constructing a \<open>User\<close> object puts it at the next free reference.\<close>

definition alloc_user :: "env \<Rightarrow> db_row \<Rightarrow> world \<Rightarrow> nat \<times> world" where
  "alloc_user e row w =
     (next_user w,
      w\<lparr>users := (users w)(next_user w := init_user e row),
        next_user := Suc (next_user w)\<rparr>)"

definition log_call :: "call \<Rightarrow> world \<Rightarrow> world" where
  "log_call c w = w\<lparr>calls := calls w @ [c]\<rparr>"

text \<open>\<open>User.update\<close>: copy tokens and cursor from a client, if any, then persist.\<close>

definition update :: "nat \<Rightarrow> world \<Rightarrow> world" where
  "update r w =
     (let u = users w r;
          u' = (case client u of
                  None \<Rightarrow> u
                | Some c \<Rightarrow> u\<lparr>auth_token := fst (tokens (clients w c)),
                               csrf_token := snd (tokens (clients w c)),
                               poll_cursor := api_poll_cursor (clients w c)\<rparr>)
      in log_call (DbUpdate (mxid u'))
           (w\<lparr>users := (users w)(r := u'), database := db_update (row_of u') (database w)\<rparr>))"

text \<open>\<open>TwitterAPI.start\<close> and \<open>TwitterAPI.stop\<close>.\<close>

definition client_start :: "nat \<Rightarrow> world \<Rightarrow> world" where
  "client_start c w =
     log_call (ClientStart c) (w\<lparr>clients := (clients w)(c := (clients w c)\<lparr>running := True\<rparr>)\<rparr>)"

definition client_stop :: "nat \<Rightarrow> world \<Rightarrow> world" where
  "client_stop c w =
     log_call (ClientStop c) (w\<lparr>clients := (clients w)(c := (clients w c)\<lparr>running := False\<rparr>)\<rparr>)"

text \<open>
  \<open>User.is_logged_in\<close>. The body of the \<open>try\<close> comes first: \<open>self.client and
  await self.client.get_user_identifier() is not None\<close> is \<open>self.client\<close> itself when
  that is \<open>None\<close>, and the boolean otherwise. The \<open>except Exception\<close> clause turns a
  raised instance of \<open>Exception\<close> into \<open>False\<close>; any other exception leaves the
  method.
\<close>

definition is_logged_in_try :: "env \<Rightarrow> nat \<Rightarrow> world \<Rightarrow> (error + pyval) \<times> world" where
  "is_logged_in_try e r w =
     (case client (users w r) of
        None \<Rightarrow> (Inr PyNone, w)
      | Some c \<Rightarrow>
          (case get_user_identifier e (tokens (clients w c)) of
             Inl err \<Rightarrow> (Inl err, log_call (ClientGetUserIdentifier (tokens (clients w c))) w)
           | Inr ident \<Rightarrow>
               (Inr (PyBool (ident \<noteq> None)),
                log_call (ClientGetUserIdentifier (tokens (clients w c))) w)))"

definition is_logged_in :: "env \<Rightarrow> nat \<Rightarrow> world \<Rightarrow> (error + pyval) \<times> world" where
  "is_logged_in e r w =
     (case is_logged_in_try e r w of
        (Inl err, w') \<Rightarrow> (if is_exception err then Inr (PyBool False) else Inl err, w')
      | (Inr v, w') \<Rightarrow> (Inr v, w'))"

text \<open>The handlers that \<open>connect\<close> adds to the new client, bound to the user \<open>r\<close>.\<close>

definition connect_handlers :: "nat \<Rightarrow> (event_kind \<times> handler \<times> nat) list" where
  "connect_handlers r =
     [(Conversation, HandleConversationUpdate, r), (TwitterUser, HandleUserUpdate, r),
      (MessageEntry, HandleMessage, r), (ReactionCreateEntry, HandleReaction, r),
      (ReactionDeleteEntry, HandleReaction, r)]"

text \<open>The block under \<open>if not self.twid\<close> in \<open>connect\<close>.\<close>

definition connect_lookup :: "env \<Rightarrow> nat \<Rightarrow> nat \<Rightarrow> string \<Rightarrow> world \<Rightarrow> (error + unit) \<times> world" where
  "connect_lookup e r c name w =
     (let w1 = log_call (ClientLookupUsers c [name]) w
      in case lookup_users e [name] of
           Inl err \<Rightarrow> (Inl err, w1)
         | Inr [] \<Rightarrow> (Inl IndexError, w1)
         | Inr (i # _) \<Rightarrow>
             (Inr (),
              w1\<lparr>users := (users w1)(r := (users w1 r)\<lparr>twid := Some i\<rparr>),
                 by_twid := (by_twid w1)(i \<mapsto> r)\<rparr>))"

text \<open>
  \<open>User.connect\<close>. The new client is a local object until \<open>self.client = client\<close>
  stores it; the probe \<open>get_user_identifier\<close> runs before that, and its return value
  is not looked at.
\<close>

definition connect :: "env \<Rightarrow> nat \<Rightarrow> string option \<Rightarrow> string option \<Rightarrow> world
    \<Rightarrow> (error + unit) \<times> world" where
  "connect e r auth csrf w =
     (let u = users w r;
          cl = \<lparr>node_id = hash_mxid e (mxid u) mod 2 ^ 48,
                api_poll_cursor = poll_cursor u,
                tokens = (py_or auth (auth_token u), py_or csrf (csrf_token u)),
                handlers = [], running = False\<rparr>;
          w0 = log_call (ClientGetUserIdentifier (tokens cl)) w
      in case get_user_identifier e (tokens cl) of
           Inl err \<Rightarrow> (Inl err, w0)
         | Inr _ \<Rightarrow>
             (let c = next_client w0;
                  w1 = w0\<lparr>clients := (clients w0)(c := cl\<lparr>handlers := connect_handlers r\<rparr>),
                          next_client := Suc c,
                          users := (users w0)(r := u\<lparr>client := Some c\<rparr>)\<rparr>;
                  w2 = log_call (ClientGetSettings c) w1
              in case get_settings e (tokens cl) of
                   Inl err \<Rightarrow> (Inl err, w2)
                 | Inr settings \<Rightarrow>
                     (case settings ''screen_name'' of
                        None \<Rightarrow> (Inl KeyError, w2)
                      | Some name \<Rightarrow>
                          (let w3 = w2\<lparr>users := (users w2)(r := (users w2 r)\<lparr>username := Some name\<rparr>)\<rparr>
                           in case (if \<not> int_truthy (twid (users w3 r))
                                    then connect_lookup e r c name w3 else (Inr (), w3)) of
                                (Inl err, w4) \<Rightarrow> (Inl err, w4)
                              | (Inr _, w4) \<Rightarrow> (Inr (), client_start c (update r w4))))))"

text \<open>\<open>User.stop\<close>.\<close>

definition stop :: "nat \<Rightarrow> world \<Rightarrow> world" where
  "stop r w =
     update r (case client (users w r) of None \<Rightarrow> w | Some c \<Rightarrow> client_stop c w)"

text \<open>
  The tail of \<open>User.logout\<close>, from the \<open>try: del self.by_twid[self.twid]\<close> on. A
  \<open>KeyError\<close> of the \<open>del\<close> is passed over, so removing a missing key changes nothing;
  \<open>None\<close> is never a key of \<open>by_twid\<close>.
\<close>

definition logout_clear :: "nat \<Rightarrow> world \<Rightarrow> world" where
  "logout_clear r w =
     (let u = users w r;
          w1 = (case twid u of None \<Rightarrow> w | Some t \<Rightarrow> w\<lparr>by_twid := (by_twid w)(t := None)\<rparr>)
      in update r
           (w1\<lparr>users := (users w1)(r := u\<lparr>client := None, twid := None, poll_cursor := None,
                                          auth_token := None, csrf_token := None\<rparr>)\<rparr>))"

text \<open>\<open>User.logout\<close>. Nothing catches an exception of the two puppet calls.\<close>

definition logout :: "env \<Rightarrow> nat \<Rightarrow> world \<Rightarrow> (error + unit) \<times> world" where
  "logout e r w =
     (let w1 = (case client (users w r) of None \<Rightarrow> w | Some c \<Rightarrow> client_stop c w);
          w2 = log_call (PuppetGetByTwid (twid (users w1 r))) w1
      in case puppet_get_by_twid e (twid (users w1 r)) of
           Inl err \<Rightarrow> (Inl err, w2)
         | Inr None \<Rightarrow> (Inr (), logout_clear r w2)
         | Inr (Some p) \<Rightarrow>
             (if is_real_user p
              then (case switch_mxid e p of
                      Inl err \<Rightarrow> (Inl err, log_call (PuppetSwitchMxid (puppet_twid p)) w2)
                    | Inr _ \<Rightarrow>
                        (Inr (), logout_clear r (log_call (PuppetSwitchMxid (puppet_twid p)) w2)))
              else (Inr (), logout_clear r w2)))"

text \<open>\<open>User._add_to_cache\<close>.\<close>

definition add_to_cache :: "nat \<Rightarrow> world \<Rightarrow> world" where
  "add_to_cache r w =
     (let u = users w r;
          w1 = w\<lparr>by_mxid := (by_mxid w)(mxid u \<mapsto> r)\<rparr>
      in case twid u of
           None \<Rightarrow> w1
         | Some t \<Rightarrow> (if t \<noteq> 0 then w1\<lparr>by_twid := (by_twid w1)(t \<mapsto> r)\<rparr> else w1))"

text \<open>\<open>User.get_by_mxid\<close>.\<close>

definition get_by_mxid :: "env \<Rightarrow> string \<Rightarrow> bool \<Rightarrow> world \<Rightarrow> nat option \<times> world" where
  "get_by_mxid e m create w =
     (case by_mxid w m of
        Some r \<Rightarrow> (Some r, w)
      | None \<Rightarrow>
          (let w0 = log_call (DbGetByMxid m) w
           in case db_get_by_mxid m (database w0) of
                Some row \<Rightarrow> (case alloc_user e row w0 of (r, w1) \<Rightarrow> (Some r, add_to_cache r w1))
              | None \<Rightarrow>
                  (if create
                   then (case alloc_user e
                                \<lparr>row_mxid = m, row_twid = None, row_auth_token = None,
                                 row_csrf_token = None, row_poll_cursor = None,
                                 row_notice_room = None\<rparr> w0 of
                           (r, w1) \<Rightarrow>
                             (Some r,
                              add_to_cache r
                                (log_call (DbInsert m)
                                   (w1\<lparr>database := db_insert (row_of (users w1 r)) (database w1)\<rparr>))))
                   else (None, w0))))"

text \<open>\<open>User.get_by_twid\<close>.\<close>

definition get_by_twid :: "env \<Rightarrow> int \<Rightarrow> world \<Rightarrow> nat option \<times> world" where
  "get_by_twid e t w =
     (case by_twid w t of
        Some r \<Rightarrow> (Some r, w)
      | None \<Rightarrow>
          (let w0 = log_call (DbGetByTwid t) w
           in case db_get_by_twid t (database w0) of
                Some row \<Rightarrow> (case alloc_user e row w0 of (r, w1) \<Rightarrow> (Some r, add_to_cache r w1))
              | None \<Rightarrow> (None, w0)))"

text \<open>
  \<open>User.all_logged_in\<close>: \<open>super().all_logged_in()\<close> constructs one object per record,
  then the loop replaces each by the cached object of its \<open>mxid\<close>, or caches it.
\<close>

fun alloc_users :: "env \<Rightarrow> db_row list \<Rightarrow> world \<Rightarrow> nat list \<times> world" where
  "alloc_users e [] w = ([], w)"
| "alloc_users e (row # rows) w =
     (case alloc_user e row w of (r, w1) \<Rightarrow>
        (case alloc_users e rows w1 of (rs, w2) \<Rightarrow> (r # rs, w2)))"

fun all_logged_in_loop :: "nat list \<Rightarrow> world \<Rightarrow> nat list \<times> world" where
  "all_logged_in_loop [] w = ([], w)"
| "all_logged_in_loop (u # us) w =
     (case by_mxid w (mxid (users w u)) of
        Some r \<Rightarrow> (case all_logged_in_loop us w of (rs, w') \<Rightarrow> (r # rs, w'))
      | None \<Rightarrow> (case all_logged_in_loop us (add_to_cache u w) of (rs, w') \<Rightarrow> (u # rs, w')))"

definition all_logged_in :: "env \<Rightarrow> world \<Rightarrow> nat list \<times> world" where
  "all_logged_in e w =
     (case alloc_users e (db_all_logged_in (database w)) (log_call DbAllLoggedIn w) of
        (us, w1) \<Rightarrow> all_logged_in_loop us w1)"

section \<open>The message handler\<close>

text \<open>
  Modelled from the spec: the class \<open>Portal\<close> of module \<open>.portal\<close> is not part of the
  source at hand. The spec gives a resolver that returns the portal of a key, creating
  it without a local room when there is none; \<open>materializeRoom\<close> gives the portal its
  local room; \<open>handleMessage\<close> takes the message payload and the request id.
\<close>

definition portal_get_by_twid :: "env \<Rightarrow> portal_key \<Rightarrow> world \<Rightarrow> (error + portal_key) \<times> world" where
  "portal_get_by_twid e k w =
     (let w1 = log_call (PortalGetByTwid k) w
      in case portal_get_error e k of
           Some err \<Rightarrow> (Inl err, w1)
         | None \<Rightarrow>
             (case portals w1 k of
                Some p \<Rightarrow> (Inr k, w1)
              | None \<Rightarrow> (Inr k, w1\<lparr>portals := (portals w1)(k \<mapsto> \<lparr>portal_mxid = None, delivered = []\<rparr>)\<rparr>)))"

definition portal_mxid_of :: "portal_key \<Rightarrow> world \<Rightarrow> string option" where
  "portal_mxid_of k w = (case portals w k of None \<Rightarrow> None | Some p \<Rightarrow> portal_mxid p)"

definition portal_create_matrix_room :: "env \<Rightarrow> portal_key \<Rightarrow> nat \<Rightarrow> world
    \<Rightarrow> (error + unit) \<times> world" where
  "portal_create_matrix_room e k r w =
     (let w1 = log_call (PortalCreateMatrixRoom k r) w
      in case create_matrix_room e k of
           Inl err \<Rightarrow> (Inl err, w1)
         | Inr room \<Rightarrow>
             (Inr (),
              w1\<lparr>portals := (portals w1)(k := map_option (\<lambda>p. p\<lparr>portal_mxid := Some room\<rparr>) (portals w1 k))\<rparr>))"

definition portal_handle_twitter_message :: "env \<Rightarrow> portal_key \<Rightarrow> nat \<Rightarrow> string \<Rightarrow> string \<Rightarrow> world
    \<Rightarrow> (error + unit) \<times> world" where
  "portal_handle_twitter_message e k r msg rid w =
     (let w1 = log_call (PortalHandleTwitterMessage k r msg rid) w
      in case handle_twitter_message_error e k msg rid of
           Some err \<Rightarrow> (Inl err, w1)
         | None \<Rightarrow>
             (Inr (),
              w1\<lparr>portals := (portals w1)(k := map_option (\<lambda>p. p\<lparr>delivered := delivered p @ [(msg, rid)]\<rparr>) (portals w1 k))\<rparr>))"

text \<open>\<open>User.handle_message\<close>.\<close>

definition handle_message :: "env \<Rightarrow> nat \<Rightarrow> message_entry \<Rightarrow> world \<Rightarrow> (error + unit) \<times> world" where
  "handle_message e r evt w =
     (case portal_get_by_twid e
             (conversation_id evt, twid (users w r), conv_type (conversation evt)) w of
        (Inl err, w1) \<Rightarrow> (Inl err, w1)
      | (Inr k, w1) \<Rightarrow>
          (case (if \<not> str_truthy (portal_mxid_of k w1)
                 then portal_create_matrix_room e k r w1 else (Inr (), w1)) of
             (Inl err, w2) \<Rightarrow> (Inl err, w2)
           | (Inr _, w2) \<Rightarrow>
               portal_handle_twitter_message e k r (message_data evt) (request_id evt) w2))"

section \<open>Sequences of calls\<close>

text \<open>
  The calls of \<open>User\<close> other than \<open>get_by_twid\<close>, and the state after a sequence of
  them, each with the answers the collaborators give during that call.
\<close>

datatype operation =
    GetByMxid string bool
  | Connect nat "string option" "string option"
  | Stop nat
  | Logout nat
  | IsLoggedIn nat
  | AllLoggedIn
  | HandleMessage nat message_entry



section \<open>Example states\<close>

text \<open>
  A run of the program: an empty process, the user \<open>alice\<close> created by a lookup, then
  connected with a token pair that the remote service accepts. \<open>world_restart\<close> is a new
  process over the database that run left behind. A second user \<open>bob\<close> then links the
  same remote account. \<open>evt_r1\<close> is a message of conversation \<open>C1\<close> with request id
  \<open>r1\<close>.
\<close>

definition blank_user :: user where
  "blank_user = \<lparr>mxid = [], twid = None, auth_token = None, csrf_token = None,
     poll_cursor = None, notice_room = None, is_whitelisted = False, is_admin = False,
     permission_level = [], client = None, username = None\<rparr>"

definition blank_client :: twitter_api where
  "blank_client = \<lparr>node_id = 0, api_poll_cursor = None, tokens = (None, None),
     handlers = [], running = False\<rparr>"

definition init_world :: world where
  "init_world = \<lparr>users = (\<lambda>_. blank_user), next_user = 0, clients = (\<lambda>_. blank_client),
     next_client = 0, by_mxid = Map.empty, by_twid = Map.empty, database = [],
     portals = Map.empty, calls = []\<rparr>"

definition env_ok :: env where
  "env_ok = \<lparr>get_permissions = (\<lambda>_. (True, False, ''user'')),
     hash_mxid = (\<lambda>_. 12345),
     get_user_identifier = (\<lambda>_. Inr (Some ''555'')),
     get_settings = (\<lambda>_. Inr [''screen_name'' \<mapsto> ''alice'']),
     lookup_users = (\<lambda>_. Inr [555]),
     puppet_get_by_twid = (\<lambda>_. Inr None),
     switch_mxid = (\<lambda>_. Inr ()),
     portal_get_error = (\<lambda>_. None),
     create_matrix_room = (\<lambda>_. Inr ''!room:example.org''),
     handle_twitter_message_error = (\<lambda>_ _ _. None)\<rparr>"

definition env_bad_probe :: env where
  "env_bad_probe = env_ok\<lparr>get_user_identifier := (\<lambda>_. Inl (Raised ''AuthError''))\<rparr>"

definition env_cancelled :: env where
  "env_cancelled = env_ok\<lparr>get_user_identifier := (\<lambda>_. Inl (BaseRaised ''CancelledError''))\<rparr>"

definition real_puppet :: puppet where
  "real_puppet = \<lparr>puppet_twid = Some 555, is_real_user = True\<rparr>"

definition env_release_ok :: env where
  "env_release_ok = env_ok\<lparr>puppet_get_by_twid := (\<lambda>_. Inr (Some real_puppet))\<rparr>"

definition env_release_fails :: env where
  "env_release_fails = env_release_ok\<lparr>switch_mxid := (\<lambda>_. Inl (Raised ''release failed''))\<rparr>"

definition alice :: string where
  "alice = ''@alice:example.org''"

definition bob :: string where
  "bob = ''@bob:example.org''"

definition world_alice :: world where
  "world_alice = snd (get_by_mxid env_ok alice True init_world)"

definition world_connected :: world where
  "world_connected = snd (connect env_ok 0 (Some ''auth'') (Some ''csrf'') world_alice)"


definition world_reconnected :: world where
  "world_reconnected = snd (connect env_ok 0 None None world_connected)"

definition world_bob :: world where
  "world_bob = snd (get_by_mxid env_ok bob True world_connected)"

definition world_both :: world where
  "world_both = snd (connect env_ok 1 (Some ''auth'') (Some ''csrf'') world_bob)"

definition world_bob_out :: world where
  "world_bob_out = snd (logout env_ok 1 world_both)"

definition world_alice_again :: world where
  "world_alice_again = snd (connect env_ok 0 None None world_both)"

definition evt_r1 :: message_entry where
  "evt_r1 = \<lparr>conversation_id = ''C1'',
     conversation = \<lparr>conv_id = ''C1'', conv_type = ''ONE_TO_ONE''\<rparr>,
     message_data = ''hello'', request_id = ''r1''\<rparr>"

definition key_r1 :: portal_key where
  "key_r1 = (''C1'', Some 555, ''ONE_TO_ONE'')"

definition world_delivered :: world where
  "world_delivered = snd (handle_message env_ok 0 evt_r1 world_connected)"

section \<open>Facts about the example states\<close>

lemmas example_defs = blank_user_def blank_client_def init_world_def env_ok_def
  env_bad_probe_def alice_def

lemmas model_defs = get_by_mxid_def alloc_user_def init_user_def add_to_cache_def log_call_def
  db_get_by_mxid_def db_insert_def db_update_def row_of_def connect_def connect_lookup_def
  connect_handlers_def update_def client_start_def py_or_def str_truthy_def int_truthy_def
  Let_def

lemma world_alice_eq:
  "world_alice = \<lparr>users = (\<lambda>_. blank_user)(0 := blank_user\<lparr>mxid := alice, is_whitelisted := True,
        permission_level := ''user''\<rparr>),
     next_user = Suc 0, clients = (\<lambda>_. blank_client), next_client = 0,
     by_mxid = [alice \<mapsto> 0], by_twid = Map.empty,
     database = [\<lparr>row_mxid = alice, row_twid = None, row_auth_token = None,
        row_csrf_token = None, row_poll_cursor = None, row_notice_room = None\<rparr>],
     portals = Map.empty, calls = [DbGetByMxid alice, DbInsert alice]\<rparr>"
  by (simp add: world_alice_def model_defs example_defs)

lemma connect_alice_ok:
  "fst (connect env_ok 0 (Some ''auth'') (Some ''csrf'') world_alice) = Inr ()"
  by (simp add: world_alice_eq model_defs example_defs)

lemma world_connected_eq:
  "world_connected = \<lparr>users = (\<lambda>_. blank_user)(0 := blank_user\<lparr>mxid := alice, is_whitelisted := True,
        permission_level := ''user'', client := Some 0, username := Some ''alice'',
        twid := Some 555, auth_token := Some ''auth'', csrf_token := Some ''csrf''\<rparr>),
     next_user = Suc 0,
     clients = (\<lambda>_. blank_client)(0 := \<lparr>node_id = 12345, api_poll_cursor = None,
        tokens = (Some ''auth'', Some ''csrf''), handlers = connect_handlers 0, running = True\<rparr>),
     next_client = Suc 0,
     by_mxid = [alice \<mapsto> 0], by_twid = [555 \<mapsto> 0],
     database = [\<lparr>row_mxid = alice, row_twid = Some 555, row_auth_token = Some ''auth'',
        row_csrf_token = Some ''csrf'', row_poll_cursor = None, row_notice_room = None\<rparr>],
     portals = Map.empty,
     calls = [DbGetByMxid alice, DbInsert alice,
        ClientGetUserIdentifier (Some ''auth'', Some ''csrf''), ClientGetSettings 0,
        ClientLookupUsers 0 [''alice''], DbUpdate alice, ClientStart 0]\<rparr>"
  by (simp add: world_connected_def world_alice_eq model_defs example_defs)


lemma world_both_eq:
  "world_both = \<lparr>users = (\<lambda>_. blank_user)
       (0 := blank_user\<lparr>mxid := alice, is_whitelisted := True,
          permission_level := ''user'', client := Some 0, username := Some ''alice'',
          twid := Some 555, auth_token := Some ''auth'', csrf_token := Some ''csrf''\<rparr>,
        1 := blank_user\<lparr>mxid := bob, is_whitelisted := True,
          permission_level := ''user'', client := Some 1, username := Some ''alice'',
          twid := Some 555, auth_token := Some ''auth'', csrf_token := Some ''csrf''\<rparr>),
     next_user = 2,
     clients = (\<lambda>_. blank_client)
       (0 := \<lparr>node_id = 12345, api_poll_cursor = None,
          tokens = (Some ''auth'', Some ''csrf''), handlers = connect_handlers 0, running = True\<rparr>,
        1 := \<lparr>node_id = 12345, api_poll_cursor = None,
          tokens = (Some ''auth'', Some ''csrf''), handlers = connect_handlers 1, running = True\<rparr>),
     next_client = 2,
     by_mxid = [alice \<mapsto> 0, bob \<mapsto> 1], by_twid = [555 \<mapsto> 1],
     database = [\<lparr>row_mxid = alice, row_twid = Some 555, row_auth_token = Some ''auth'',
        row_csrf_token = Some ''csrf'', row_poll_cursor = None, row_notice_room = None\<rparr>,
       \<lparr>row_mxid = bob, row_twid = Some 555, row_auth_token = Some ''auth'',
        row_csrf_token = Some ''csrf'', row_poll_cursor = None, row_notice_room = None\<rparr>],
     portals = Map.empty,
     calls = [DbGetByMxid alice, DbInsert alice,
        ClientGetUserIdentifier (Some ''auth'', Some ''csrf''), ClientGetSettings 0,
        ClientLookupUsers 0 [''alice''], DbUpdate alice, ClientStart 0,
        DbGetByMxid bob, DbInsert bob,
        ClientGetUserIdentifier (Some ''auth'', Some ''csrf''), ClientGetSettings 1,
        ClientLookupUsers 1 [''alice''], DbUpdate bob, ClientStart 1]\<rparr>"
  by (simp add: world_both_def world_bob_def world_connected_eq model_defs example_defs bob_def
      numeral_2_eq_2)

lemma connect_alice_eq:
  "connect env_ok 0 (Some ''auth'') (Some ''csrf'') world_alice = (Inr (), world_connected)"
  using connect_alice_ok by (simp add: world_connected_def prod_eq_iff)

lemma connect_again_eq:
  "connect env_ok 0 None None world_connected = (Inr (), world_reconnected)"
proof -
  have "fst (connect env_ok 0 None None world_connected) = Inr ()"
    by (simp add: world_connected_eq model_defs example_defs)
  then show ?thesis by (simp add: world_reconnected_def prod_eq_iff)
qed

lemma evt_r1_key:
  "(conversation_id evt_r1, twid (users world_connected 0), conv_type (conversation evt_r1)) = key_r1"
  "(conversation_id evt_r1, twid (users world_delivered 0), conv_type (conversation evt_r1)) = key_r1"
  "message_data evt_r1 = ''hello''" "request_id evt_r1 = ''r1''"
  "portal_mxid_of key_r1 world_connected = None"
  "portal_mxid_of key_r1 world_delivered = Some ''!room:example.org''"
  by (simp_all add: evt_r1_def key_r1_def world_delivered_def world_connected_eq
      handle_message_def portal_get_by_twid_def portal_mxid_of_def
      portal_create_matrix_room_def portal_handle_twitter_message_def log_call_def Let_def
      str_truthy_def env_ok_def)

section \<open>Auxiliary facts\<close>


lemma users_add_to_cache: "users (add_to_cache r w) = users w"
  by (simp add: add_to_cache_def Let_def split: option.splits)

lemma by_mxid_add_to_cache: "by_mxid (add_to_cache r w) = (by_mxid w)(mxid (users w r) \<mapsto> r)"
  by (simp add: add_to_cache_def Let_def split: option.splits)


lemma alloc_users_props:
  "alloc_users e rows w = (us, w1) \<Longrightarrow>
     length us = length rows \<and> by_mxid w1 = by_mxid w
     \<and> (\<forall>i < length rows. mxid (users w1 (us ! i)) = row_mxid (rows ! i))
     \<and> (\<forall>n < next_user w. users w1 n = users w n)
     \<and> (\<forall>i < length rows. us ! i = next_user w + i)"
proof (induction rows arbitrary: w us w1)
  case Nil
  then show ?case by simp
next
  case (Cons row rows)
  obtain rs w2 where a: "alloc_users e rows (snd (alloc_user e row w)) = (rs, w2)"
    by (cases "alloc_users e rows (snd (alloc_user e row w))") auto
  from Cons.prems a have us: "us = next_user w # rs" and w1: "w1 = w2"
    by (auto simp: alloc_user_def split: prod.splits)
  let ?w = "snd (alloc_user e row w)"
  from Cons.IH[OF a] have ih: "length rs = length rows" "by_mxid w2 = by_mxid ?w"
    "\<forall>i < length rows. mxid (users w2 (rs ! i)) = row_mxid (rows ! i)"
    "\<forall>n < next_user ?w. users w2 n = users ?w n"
    "\<forall>i < length rows. rs ! i = next_user ?w + i" by auto
  have nw: "next_user ?w = Suc (next_user w)" by (simp add: alloc_user_def)
  have u0: "users w2 (next_user w) = init_user e row"
    using ih(4) nw by (simp add: alloc_user_def)
  have m0: "mxid (init_user e row) = row_mxid row"
    by (simp add: init_user_def split: prod.splits)
  show ?case
  proof (intro conjI allI impI)
    show "length us = length (row # rows)" using us ih(1) by simp
    show "by_mxid w1 = by_mxid w" using w1 ih(2) by (simp add: alloc_user_def)
  next
    fix i assume "i < length (row # rows)"
    then show "mxid (users w1 (us ! i)) = row_mxid ((row # rows) ! i)"
      using us w1 ih(3) u0 m0 by (cases i) auto
  next
    fix n assume "n < next_user w"
    then show "users w1 n = users w n"
      using w1 ih(4) nw by (simp add: alloc_user_def)
  next
    fix i assume "i < length (row # rows)"
    then show "us ! i = next_user w + i"
      using us ih(5) nw by (cases i) auto
  qed
qed

lemma all_logged_in_loop_props:
  "all_logged_in_loop us w = (rs, w') \<Longrightarrow>
     users w' = users w \<and> length rs = length us
     \<and> (\<forall>k r. by_mxid w k = Some r \<longrightarrow> by_mxid w' k = Some r)
     \<and> (\<forall>i < length us. by_mxid w' (mxid (users w (us ! i))) = Some (rs ! i))"
proof (induction us arbitrary: w rs w')
  case Nil
  then show ?case by simp
next
  case (Cons u us)
  show ?case
  proof (cases "by_mxid w (mxid (users w u))")
    case (Some r)
    obtain rs1 w1 where a: "all_logged_in_loop us w = (rs1, w1)"
      by (cases "all_logged_in_loop us w") auto
    from Cons.prems Some a have rs: "rs = r # rs1" and w': "w' = w1" by auto
    from Cons.IH[OF a] have ih: "users w1 = users w" "length rs1 = length us"
      "\<forall>k r. by_mxid w k = Some r \<longrightarrow> by_mxid w1 k = Some r"
      "\<forall>i < length us. by_mxid w1 (mxid (users w (us ! i))) = Some (rs1 ! i)" by auto
    show ?thesis
    proof (intro conjI allI impI)
      show "users w' = users w" using w' ih(1) by simp
      show "length rs = length (u # us)" using rs ih(2) by simp
    next
      fix k r' assume "by_mxid w k = Some r'"
      then show "by_mxid w' k = Some r'" using w' ih(3) by simp
    next
      fix i assume "i < length (u # us)"
      then show "by_mxid w' (mxid (users w ((u # us) ! i))) = Some (rs ! i)"
        using rs w' ih(3) ih(4) Some by (cases i) auto
    qed
  next
    case None
    let ?w = "add_to_cache u w"
    obtain rs1 w1 where a: "all_logged_in_loop us ?w = (rs1, w1)"
      by (cases "all_logged_in_loop us ?w") auto
    from Cons.prems None a have rs: "rs = u # rs1" and w': "w' = w1" by auto
    from Cons.IH[OF a] have ih: "users w1 = users ?w" "length rs1 = length us"
      "\<forall>k r. by_mxid ?w k = Some r \<longrightarrow> by_mxid w1 k = Some r"
      "\<forall>i < length us. by_mxid w1 (mxid (users ?w (us ! i))) = Some (rs1 ! i)" by auto
    have keep: "\<And>k r. by_mxid w k = Some r \<Longrightarrow> by_mxid ?w k = Some r"
      using None by (auto simp: by_mxid_add_to_cache)
    have new: "by_mxid ?w (mxid (users w u)) = Some u"
      by (simp add: by_mxid_add_to_cache)
    show ?thesis
    proof (intro conjI allI impI)
      show "users w' = users w" using w' ih(1) by (simp add: users_add_to_cache)
      show "length rs = length (u # us)" using rs ih(2) by simp
    next
      fix k r' assume "by_mxid w k = Some r'"
      then show "by_mxid w' k = Some r'" using w' ih(3) keep by simp
    next
      fix i assume "i < length (u # us)"
      then show "by_mxid w' (mxid (users w ((u # us) ! i))) = Some (rs ! i)"
        using rs w' ih(3) ih(4) new by (cases i) (auto simp: users_add_to_cache)
    qed
  qed
qed

lemma db_update_idem: "db_update row (db_update row rows) = db_update row rows"
  by (induction rows) (auto simp: db_update_def)

lemma logout_success:
  "logout e r w = (Inr (), w') \<Longrightarrow>
     \<exists>w2. w' = logout_clear r w2 \<and> users w2 = users w \<and> database w2 = database w
        \<and> by_twid w2 = by_twid w \<and> by_mxid w2 = by_mxid w"
  by (cases "client (users w r)")
     (auto simp: logout_def Let_def log_call_def client_stop_def
           split: sum.splits option.splits if_splits)

lemma logout_clear_user:
  "users (logout_clear r w) r = (users w r)\<lparr>client := None, twid := None, poll_cursor := None,
      auth_token := None, csrf_token := None\<rparr>"
  by (simp add: logout_clear_def update_def log_call_def Let_def split: option.splits)

lemma logout_clear_by_twid:
  "twid (users w r) = Some t \<Longrightarrow> by_twid (logout_clear r w) t = None"
  by (simp add: logout_clear_def update_def log_call_def Let_def)

lemma logout_clear_database:
  "database (logout_clear r w)
     = db_update (row_of ((users w r)\<lparr>client := None, twid := None, poll_cursor := None,
          auth_token := None, csrf_token := None\<rparr>)) (database w)"
  by (simp add: logout_clear_def update_def log_call_def Let_def split: option.splits)

lemma db_get_by_twid_update_None:
  assumes "\<forall>row \<in> set rows. row_twid row = Some t \<longrightarrow> row_mxid row = row_mxid new"
    and "row_twid new \<noteq> Some t"
  shows "db_get_by_twid t (db_update new rows) = None"
  using assms by (auto simp: db_get_by_twid_def db_update_def find_None_iff)

lemma connect_success:
  assumes "connect e r auth csrf w = (Inr (), w')"
  shows "\<exists>w4. w' = client_start (next_client w) (update r w4)
      \<and> next_client w4 = Suc (next_client w)
      \<and> client (users w4 r) = Some (next_client w)
      \<and> mxid (users w4 r) = mxid (users w r)
      \<and> (\<forall>c. c \<noteq> next_client w \<longrightarrow> clients w4 c = clients w c)
      \<and> by_mxid w4 = by_mxid w
      \<and> (if int_truthy (twid (users w r))
          then twid (users w4 r) = twid (users w r) \<and> by_twid w4 = by_twid w
             \<and> (\<forall>c ns. ClientLookupUsers c ns \<in> set (calls w4)
                   \<longrightarrow> ClientLookupUsers c ns \<in> set (calls w))
          else (\<exists>name i. username (users w4 r) = Some name
             \<and> ClientLookupUsers (next_client w) [name] \<in> set (calls w4)
             \<and> twid (users w4 r) = Some i \<and> by_twid w4 = (by_twid w)(i \<mapsto> r)))"
  using assms
  by (auto simp: connect_def connect_lookup_def log_call_def Let_def
      split: sum.splits option.splits if_splits list.splits prod.splits)

lemma update_start_props:
  "users (client_start c (update r w)) r
     = (case client (users w r) of None \<Rightarrow> users w r
        | Some c' \<Rightarrow> (users w r)\<lparr>auth_token := fst (tokens (clients w c')),
             csrf_token := snd (tokens (clients w c')),
             poll_cursor := api_poll_cursor (clients w c')\<rparr>)"
  "by_mxid (client_start c (update r w)) = by_mxid w"
  "by_twid (client_start c (update r w)) = by_twid w"
  "next_client (client_start c (update r w)) = next_client w"
  "running (clients (client_start c (update r w)) c)"
  "c' \<noteq> c \<Longrightarrow> clients (client_start c (update r w)) c' = clients w c'"
  "set (calls w) \<subseteq> set (calls (client_start c (update r w)))"
  "ClientLookupUsers a b \<in> set (calls (client_start c (update r w)))
     \<longleftrightarrow> ClientLookupUsers a b \<in> set (calls w)"
  by (auto simp: client_start_def update_def log_call_def Let_def split: option.splits)











section \<open>The claims\<close>

text \<open>
  C1, as stated, fails: \<open>logout\<close> does not catch an exception of the puppet release
  \<open>switch_mxid\<close>. In the run below the release raises, \<open>logout\<close> raises the same
  exception, and the registry entry, the remote id, the tokens and the database are what
  they were.
\<close>

theorem logout_release_fails_counterexample:
  "puppet_get_by_twid env_release_fails (twid (users world_connected 0)) = Inr (Some real_puppet)
   \<and> is_real_user real_puppet
   \<and> switch_mxid env_release_fails real_puppet = Inl (Raised ''release failed'')
   \<and> fst (logout env_release_fails 0 world_connected) = Inl (Raised ''release failed'')
   \<and> by_twid (snd (logout env_release_fails 0 world_connected)) 555 = Some 0
   \<and> twid (users (snd (logout env_release_fails 0 world_connected)) 0) = Some 555
   \<and> auth_token (users (snd (logout env_release_fails 0 world_connected)) 0) = Some ''auth''
   \<and> csrf_token (users (snd (logout env_release_fails 0 world_connected)) 0) = Some ''csrf''
   \<and> database (snd (logout env_release_fails 0 world_connected)) = database world_connected"
  by (simp add: logout_def client_stop_def log_call_def Let_def world_connected_eq
      env_release_fails_def env_release_ok_def env_ok_def real_puppet_def)

text \<open>
  C1, amended. With a real-user puppet for the user's remote id, \<open>logout\<close> stops the
  client, if any, and calls the release, whatever the release does: afterwards the client
  the user held is not running. When the release raises, \<open>logout\<close> raises the
  same exception and leaves the user object, both registry dictionaries and the database
  as they were. When the release returns, \<open>logout\<close> removes the registry entry of the
  remote id, clears the client, the remote id, both tokens and the cursor, and persists the
  cleared record.
\<close>

theorem logout_release:
  assumes "puppet_get_by_twid e (twid (users w r)) = Inr (Some p)" and "is_real_user p"
  shows "(\<forall>err. switch_mxid e p = Inl err \<longrightarrow>
            fst (logout e r w) = Inl err
            \<and> users (snd (logout e r w)) = users w
            \<and> by_mxid (snd (logout e r w)) = by_mxid w
            \<and> by_twid (snd (logout e r w)) = by_twid w
            \<and> database (snd (logout e r w)) = database w
            \<and> (\<forall>c. client (users w r) = Some c \<longrightarrow> \<not> running (clients (snd (logout e r w)) c)))
     \<and> (switch_mxid e p = Inr () \<longrightarrow>
            fst (logout e r w) = Inr ()
            \<and> (\<forall>t. twid (users w r) = Some t \<longrightarrow> by_twid (snd (logout e r w)) t = None)
            \<and> client (users (snd (logout e r w)) r) = None
            \<and> twid (users (snd (logout e r w)) r) = None
            \<and> auth_token (users (snd (logout e r w)) r) = None
            \<and> csrf_token (users (snd (logout e r w)) r) = None
            \<and> poll_cursor (users (snd (logout e r w)) r) = None
            \<and> database (snd (logout e r w))
                = db_update (row_of (users (snd (logout e r w)) r)) (database w))
     \<and> (\<forall>c. client (users w r) = Some c \<longrightarrow>
            \<not> running (clients (snd (logout e r w)) c)
            \<and> ClientStop c \<in> set (calls (snd (logout e r w))))
     \<and> PuppetSwitchMxid (puppet_twid p) \<in> set (calls (snd (logout e r w)))"
proof (cases "client (users w r)")
  case None
  with assms show ?thesis
    by (auto simp: logout_def logout_clear_def update_def log_call_def Let_def row_of_def
        split: sum.splits option.splits)
next
  case (Some c)
  with assms show ?thesis
    by (auto simp: logout_def logout_clear_def update_def client_stop_def log_call_def Let_def
        row_of_def split: sum.splits option.splits)
qed

theorem logout_release_witness:
  "puppet_get_by_twid env_release_ok (twid (users world_connected 0)) = Inr (Some real_puppet)
   \<and> is_real_user real_puppet
   \<and> switch_mxid env_release_ok real_puppet = Inr ()
   \<and> fst (logout env_release_ok 0 world_connected) = Inr ()
   \<and> by_twid (snd (logout env_release_ok 0 world_connected)) 555 = None
   \<and> twid (users (snd (logout env_release_ok 0 world_connected)) 0) = None
   \<and> switch_mxid env_release_fails real_puppet = Inl (Raised ''release failed'')
   \<and> fst (logout env_release_fails 0 world_connected) = Inl (Raised ''release failed'')
   \<and> by_twid (snd (logout env_release_fails 0 world_connected)) = by_twid world_connected
   \<and> client (users world_connected 0) = Some 0
   \<and> running (clients world_connected 0)
   \<and> \<not> running (clients (snd (logout env_release_ok 0 world_connected)) 0)
   \<and> \<not> running (clients (snd (logout env_release_fails 0 world_connected)) 0)"
proof -
  have a: "puppet_get_by_twid env_release_ok (twid (users world_connected 0)) = Inr (Some real_puppet)"
    "puppet_get_by_twid env_release_fails (twid (users world_connected 0)) = Inr (Some real_puppet)"
    "is_real_user real_puppet"
    "switch_mxid env_release_ok real_puppet = Inr ()"
    "switch_mxid env_release_fails real_puppet = Inl (Raised ''release failed'')"
    "twid (users world_connected 0) = Some 555"
    "client (users world_connected 0) = Some 0"
    "running (clients world_connected 0)"
    by (simp_all add: env_release_fails_def env_release_ok_def env_ok_def real_puppet_def
        world_connected_eq)
  show ?thesis
    using a logout_release [OF a(1) a(3)] logout_release [OF a(2) a(3)]
    by simp
qed

text \<open>
  C2, as stated, fails: \<open>stop\<close> does not clear the client reference. After \<open>stop\<close> on
  the connected user of the example run the user still holds client \<open>0\<close>.
\<close>

theorem stop_clears_handle_counterexample:
  "client (users world_connected 0) = Some 0 \<and> running (clients world_connected 0)
   \<and> client (users (stop 0 world_connected) 0) = Some 0
   \<and> client (users (stop 0 world_connected) 0) \<noteq> None"
  by (simp add: world_connected_eq stop_def update_def client_stop_def log_call_def Let_def)

text \<open>
  C2, amended. \<open>stop\<close> on a user with a client stops that client and keeps the
  reference to it; the user's tokens and cursor become those of the client, and the record
  is persisted with them. \<open>stop\<close> on a user without a client leaves every user object,
  every client and both registry dictionaries unchanged and persists the record as it is.
  A second \<open>stop\<close> changes nothing in the users, the clients, the registry or the
  database.
\<close>

theorem stop_keeps_handle:
  "(\<forall>c. client (users w r) = Some c \<longrightarrow>
       \<not> running (clients (stop r w) c)
       \<and> client (users (stop r w) r) = Some c
       \<and> auth_token (users (stop r w) r) = fst (tokens (clients w c))
       \<and> csrf_token (users (stop r w) r) = snd (tokens (clients w c))
       \<and> poll_cursor (users (stop r w) r) = api_poll_cursor (clients w c)
       \<and> database (stop r w) = db_update (row_of (users (stop r w) r)) (database w))
   \<and> (client (users w r) = None \<longrightarrow>
       users (stop r w) = users w \<and> clients (stop r w) = clients w
       \<and> by_mxid (stop r w) = by_mxid w \<and> by_twid (stop r w) = by_twid w
       \<and> database (stop r w) = db_update (row_of (users w r)) (database w))
   \<and> users (stop r (stop r w)) = users (stop r w)
   \<and> clients (stop r (stop r w)) = clients (stop r w)
   \<and> by_mxid (stop r (stop r w)) = by_mxid (stop r w)
   \<and> by_twid (stop r (stop r w)) = by_twid (stop r w)
   \<and> database (stop r (stop r w)) = database (stop r w)"
proof (cases "client (users w r)")
  case None
  then show ?thesis
    by (simp add: stop_def update_def log_call_def Let_def db_update_idem)
next
  case (Some c)
  then show ?thesis
    by (simp add: stop_def update_def client_stop_def log_call_def Let_def db_update_idem
        row_of_def)
qed

theorem stop_keeps_handle_witness:
  "client (users world_connected 0) = Some 0
   \<and> \<not> running (clients (stop 0 world_connected) 0)
   \<and> client (users (stop 0 world_connected) 0) = Some 0
   \<and> client (users world_alice 0) = None
   \<and> users (stop 0 world_alice) = users world_alice"
proof -
  have a: "client (users world_connected 0) = Some 0" by (simp add: world_connected_eq)
  have b: "client (users world_alice 0) = None" by (simp add: world_alice_eq blank_user_def)
  show ?thesis
    using a b stop_keeps_handle [of world_connected 0] stop_keeps_handle [of world_alice 0]
    by simp
qed

text \<open>
  C3. When the identity probe of \<open>connect\<close> raises, \<open>connect\<close> raises the same
  exception and nothing is changed: the stores of users and clients (so the user's client
  reference, remote id, tokens and cursor), both registry dictionaries and the database are
  what they were before the call. Only the call log records the probe.
\<close>

theorem connect_probe_fails_state_unchanged:
  assumes "get_user_identifier e (py_or auth (auth_token (users w r)),
             py_or csrf (csrf_token (users w r))) = Inl err"
  shows "fst (connect e r auth csrf w) = Inl err
    \<and> users (snd (connect e r auth csrf w)) = users w
    \<and> clients (snd (connect e r auth csrf w)) = clients w
    \<and> next_client (snd (connect e r auth csrf w)) = next_client w
    \<and> by_mxid (snd (connect e r auth csrf w)) = by_mxid w
    \<and> by_twid (snd (connect e r auth csrf w)) = by_twid w
    \<and> database (snd (connect e r auth csrf w)) = database w"
  using assms by (simp add: connect_def Let_def log_call_def)

theorem connect_probe_fails_witness:
  "get_user_identifier env_bad_probe (py_or (Some ''bad'') (auth_token (users world_alice 0)),
       py_or (Some ''bad'') (csrf_token (users world_alice 0))) = Inl (Raised ''AuthError'')
   \<and> fst (connect env_bad_probe 0 (Some ''bad'') (Some ''bad'') world_alice)
        = Inl (Raised ''AuthError'')
   \<and> twid (users (snd (connect env_bad_probe 0 (Some ''bad'') (Some ''bad'') world_alice)) 0) = None
   \<and> client (users (snd (connect env_bad_probe 0 (Some ''bad'') (Some ''bad'') world_alice)) 0) = None
   \<and> by_twid (snd (connect env_bad_probe 0 (Some ''bad'') (Some ''bad'') world_alice)) 555 = None"
proof -
  have h: "get_user_identifier env_bad_probe
      (py_or (Some ''bad'') (auth_token (users world_alice 0)),
       py_or (Some ''bad'') (csrf_token (users world_alice 0))) = Inl (Raised ''AuthError'')"
    by (simp add: env_bad_probe_def env_ok_def)
  show ?thesis
    using h connect_probe_fails_state_unchanged [OF h]
    by (simp add: world_alice_eq blank_user_def)
qed

text \<open>
  C4, as stated, fails when another persisted record carries the same remote id. In the
  run below \<open>alice\<close> and \<open>bob\<close> are both bound to remote id \<open>555\<close>; after \<open>bob\<close>
  logs out, \<open>get_by_twid 555\<close> misses the cache, finds the record of \<open>alice\<close> in the
  database and returns a new object built from it.
\<close>

theorem logout_not_found_counterexample:
  "twid (users world_both 1) = Some 555
   \<and> fst (logout env_ok 1 world_both) = Inr ()
   \<and> by_twid world_bob_out 555 = None
   \<and> fst (get_by_twid env_ok 555 world_bob_out) = Some 2
   \<and> fst (get_by_twid env_ok 555 world_bob_out) \<noteq> None"
  by (simp add: world_bob_out_def world_both_eq model_defs
      example_defs bob_def logout_def logout_clear_def client_stop_def get_by_twid_def
      db_get_by_twid_def)

text \<open>
  C4, amended. For a user bound to remote id \<open>t\<close>, after \<open>logout\<close> has returned:
  \<open>is_logged_in\<close> returns \<open>None\<close>, which is falsy; the registry has no entry for \<open>t\<close>;
  and \<open>get_by_twid t\<close> returns \<open>None\<close>, provided no persisted record other than the
  user's own carried remote id \<open>t\<close>.
\<close>

theorem logout_then_not_found:
  assumes "logout e r w = (Inr (), w')" and "twid (users w r) = Some t"
    and "\<forall>row \<in> set (database w). row_twid row = Some t \<longrightarrow> row_mxid row = mxid (users w r)"
  shows "fst (is_logged_in e' r w') = Inr PyNone \<and> \<not> truthy PyNone
    \<and> by_twid w' t = None
    \<and> fst (get_by_twid e' t w') = None"
proof -
  from logout_success [OF assms(1)] obtain w2 where
    w2: "w' = logout_clear r w2" "users w2 = users w" "database w2 = database w" by auto
  have c: "client (users w' r) = None" using w2(1) by (simp add: logout_clear_user)
  have b: "by_twid w' t = None" using w2 assms(2) by (simp add: logout_clear_by_twid)
  have d: "db_get_by_twid t (database w') = None"
    unfolding w2(1) logout_clear_database w2(2) w2(3)
    by (rule db_get_by_twid_update_None) (use assms(3) in \<open>auto simp: row_of_def\<close>)
  have l: "fst (is_logged_in e' r w') = Inr PyNone"
    using c by (simp add: is_logged_in_def is_logged_in_try_def)
  have g: "fst (get_by_twid e' t w') = None"
    using b d by (simp add: get_by_twid_def Let_def log_call_def)
  from l b g show ?thesis by simp
qed

theorem logout_then_not_found_witness:
  "logout env_release_ok 0 world_connected = (Inr (), snd (logout env_release_ok 0 world_connected))
   \<and> twid (users world_connected 0) = Some 555
   \<and> map row_twid (database world_connected) = [Some 555]
   \<and> map row_mxid (database world_connected) = [mxid (users world_connected 0)]
   \<and> fst (is_logged_in env_ok 0 (snd (logout env_release_ok 0 world_connected))) = Inr PyNone
   \<and> by_twid (snd (logout env_release_ok 0 world_connected)) 555 = None
   \<and> fst (get_by_twid env_ok 555 (snd (logout env_release_ok 0 world_connected))) = None"
proof -
  have f: "fst (logout env_release_ok 0 world_connected) = Inr ()"
    by (simp add: logout_def client_stop_def log_call_def Let_def world_connected_eq
        env_release_ok_def env_ok_def real_puppet_def)
  then have a: "logout env_release_ok 0 world_connected
      = (Inr (), snd (logout env_release_ok 0 world_connected))"
    by (metis prod.collapse)
  have b: "twid (users world_connected 0) = Some 555" by (simp add: world_connected_eq)
  have c: "\<forall>row \<in> set (database world_connected).
         row_twid row = Some 555 \<longrightarrow> row_mxid row = mxid (users world_connected 0)"
    by (simp add: world_connected_eq blank_user_def)
  have d: "map row_twid (database world_connected) = [Some 555]
      \<and> map row_mxid (database world_connected) = [mxid (users world_connected 0)]"
    by (simp add: world_connected_eq blank_user_def)
  show ?thesis
    using a b d logout_then_not_found [OF a b c, of env_ok] by simp
qed

text \<open>
  C5, as stated, fails: \<open>connect\<close> on a connected user stores a new client without
  stopping the previous one. In the run below the user is connected twice; afterwards the
  user holds client \<open>1\<close>, client \<open>0\<close> is still running, and no \<open>stop\<close> of client \<open>0\<close>
  was called.
\<close>

theorem connect_twice_counterexample:
  "client (users world_connected 0) = Some 0 \<and> running (clients world_connected 0)
   \<and> fst (connect env_ok 0 None None world_connected) = Inr ()
   \<and> client (users world_reconnected 0) = Some 1
   \<and> running (clients world_reconnected 1)
   \<and> running (clients world_reconnected 0)
   \<and> ClientStop 0 \<notin> set (calls world_reconnected)"
  by (simp add: world_reconnected_def world_connected_eq model_defs example_defs)

text \<open>
  C5, amended. A successful \<open>connect\<close> stores a newly constructed client in the user and
  starts it, and leaves every client that existed before as it was: it stops none.
  \<open>stop\<close> and \<open>logout\<close> construct no client and start none; \<open>stop\<close> keeps the user's
  client reference.
\<close>

theorem connect_installs_fresh_handle:
  "(\<forall>w'. connect e r auth csrf w = (Inr (), w') \<longrightarrow>
       client (users w' r) = Some (next_client w)
       \<and> running (clients w' (next_client w))
       \<and> next_client w' = Suc (next_client w)
       \<and> (\<forall>c. c \<noteq> next_client w \<longrightarrow> clients w' c = clients w c))
   \<and> next_client (stop r w) = next_client w
   \<and> client (users (stop r w) r) = client (users w r)
   \<and> (\<forall>c. running (clients (stop r w) c) \<longrightarrow> running (clients w c))
   \<and> next_client (snd (logout e r w)) = next_client w
   \<and> (\<forall>c. running (clients (snd (logout e r w)) c) \<longrightarrow> running (clients w c))"
proof (intro conjI allI impI)
  fix w' assume a: "connect e r auth csrf w = (Inr (), w')"
  from connect_success [OF a] obtain w4 where w4:
    "w' = client_start (next_client w) (update r w4)"
    "next_client w4 = Suc (next_client w)"
    "client (users w4 r) = Some (next_client w)"
    "\<forall>c. c \<noteq> next_client w \<longrightarrow> clients w4 c = clients w c" by blast
  show "client (users w' r) = Some (next_client w)"
    using w4(1) w4(3) by (simp add: update_start_props)
  show "running (clients w' (next_client w))"
    using w4(1) by (simp add: update_start_props)
  show "next_client w' = Suc (next_client w)"
    using w4(1) w4(2) by (simp add: update_start_props)
  fix c assume "c \<noteq> next_client w"
  then show "clients w' c = clients w c"
    using w4(1) w4(4) by (simp add: update_start_props)
next
  show "next_client (stop r w) = next_client w"
    by (simp add: stop_def update_def client_stop_def log_call_def Let_def split: option.splits)
  show "client (users (stop r w) r) = client (users w r)"
    by (simp add: stop_def update_def client_stop_def log_call_def Let_def split: option.splits)
  show "next_client (snd (logout e r w)) = next_client w"
    by (simp add: logout_def logout_clear_def update_def client_stop_def log_call_def Let_def
        split: option.splits sum.splits)
next
  fix c assume "running (clients (stop r w) c)"
  then show "running (clients w c)"
    by (simp add: stop_def update_def client_stop_def log_call_def Let_def
        split: option.splits if_splits)
next
  fix c assume "running (clients (snd (logout e r w)) c)"
  then show "running (clients w c)"
    by (simp add: logout_def logout_clear_def update_def client_stop_def log_call_def Let_def
        split: option.splits sum.splits if_splits)
qed

theorem connect_installs_fresh_handle_witness:
  "connect env_ok 0 None None world_connected = (Inr (), world_reconnected)
   \<and> client (users world_reconnected 0) = Some 1
   \<and> running (clients world_reconnected 1)
   \<and> (0::nat) \<noteq> next_client world_connected
   \<and> clients world_reconnected 0 = clients world_connected 0
   \<and> running (clients (stop 0 world_connected) 1) = False"
proof -
  have n: "next_client world_connected = 1" "running (clients world_connected 1) = False"
    by (simp_all add: world_connected_eq blank_client_def)
  show ?thesis
    using n connect_again_eq
      connect_installs_fresh_handle [of env_ok 0 None None world_connected]
    by auto
qed




text \<open>
  C7, as stated, fails when the registry entry of the user's remote id belongs to another
  object. In the run below \<open>bob\<close> has bound the remote id \<open>555\<close> that \<open>alice\<close>
  already had; \<open>connect\<close> on \<open>alice\<close> succeeds and keeps her remote id without touching
  the registry, so \<open>get_by_twid 555\<close> returns the object of \<open>bob\<close> and
  \<open>get_by_mxid alice\<close> the object of \<open>alice\<close>.
\<close>

theorem connect_same_object_counterexample:
  "fst (connect env_ok 0 None None world_both) = Inr ()
   \<and> twid (users world_alice_again 0) = Some 555
   \<and> mxid (users world_alice_again 0) = alice
   \<and> fst (get_by_twid env_ok 555 world_alice_again) = Some 1
   \<and> fst (get_by_mxid env_ok alice False world_alice_again) = Some 0
   \<and> fst (get_by_twid env_ok 555 world_alice_again)
       \<noteq> fst (get_by_mxid env_ok alice False world_alice_again)"
  by (simp add: world_alice_again_def world_both_eq model_defs
      example_defs bob_def get_by_twid_def)

text \<open>
  C7, amended. For a successful \<open>connect\<close>: when the user's remote id is set (truthy, as
  \<open>if not self.twid\<close> tests it), it stays as it is, the registry dictionary \<open>by_twid\<close>
  is untouched and no lookup call is made; when it is not set, the lookup by the screen
  name is called, the first id of its result becomes the remote id and \<open>by_twid\<close> maps it
  to the user. Afterwards \<open>get_by_twid\<close> of the remote id and \<open>get_by_mxid\<close> of the
  local id both return the user, provided that before the call the user was the object
  registered under its local id and, if its remote id was set, under that remote id.
\<close>

theorem connect_binds_remote_id:
  assumes "connect e r auth csrf w = (Inr (), w')"
  shows "(int_truthy (twid (users w r)) \<longrightarrow>
            twid (users w' r) = twid (users w r) \<and> by_twid w' = by_twid w
            \<and> (\<forall>c ns. ClientLookupUsers c ns \<in> set (calls w')
                  \<longrightarrow> ClientLookupUsers c ns \<in> set (calls w)))
     \<and> (\<not> int_truthy (twid (users w r)) \<longrightarrow>
            (\<exists>name i. username (users w' r) = Some name
               \<and> ClientLookupUsers (next_client w) [name] \<in> set (calls w')
               \<and> twid (users w' r) = Some i \<and> by_twid w' = (by_twid w)(i \<mapsto> r)))
     \<and> (by_mxid w (mxid (users w r)) = Some r
          \<and> (\<forall>t. twid (users w r) = Some t \<and> t \<noteq> 0 \<longrightarrow> by_twid w t = Some r) \<longrightarrow>
            (\<exists>t. twid (users w' r) = Some t
               \<and> fst (get_by_twid e' t w') = Some r
               \<and> fst (get_by_mxid e' (mxid (users w' r)) create w') = Some r))"
proof -
  from connect_success [OF assms] obtain w4 where w4:
    "w' = client_start (next_client w) (update r w4)"
    "client (users w4 r) = Some (next_client w)"
    "mxid (users w4 r) = mxid (users w r)"
    "by_mxid w4 = by_mxid w"
    "if int_truthy (twid (users w r))
          then twid (users w4 r) = twid (users w r) \<and> by_twid w4 = by_twid w
             \<and> (\<forall>c ns. ClientLookupUsers c ns \<in> set (calls w4)
                   \<longrightarrow> ClientLookupUsers c ns \<in> set (calls w))
          else (\<exists>name i. username (users w4 r) = Some name
             \<and> ClientLookupUsers (next_client w) [name] \<in> set (calls w4)
             \<and> twid (users w4 r) = Some i \<and> by_twid w4 = (by_twid w)(i \<mapsto> r))" by blast
  have u: "twid (users w' r) = twid (users w4 r)" "username (users w' r) = username (users w4 r)"
    "mxid (users w' r) = mxid (users w r)"
    using w4(1) w4(2) w4(3) by (simp_all add: update_start_props)
  have b: "by_twid w' = by_twid w4" "by_mxid w' = by_mxid w"
    using w4(1) w4(4) by (simp_all add: update_start_props)
  have l: "\<And>a ns. ClientLookupUsers a ns \<in> set (calls w') \<longleftrightarrow> ClientLookupUsers a ns \<in> set (calls w4)"
    using w4(1) by (simp add: update_start_props)
  show ?thesis
  proof (cases "int_truthy (twid (users w r))")
    case True
    with w4(5) have k: "twid (users w4 r) = twid (users w r)" "by_twid w4 = by_twid w"
      "\<forall>c ns. ClientLookupUsers c ns \<in> set (calls w4) \<longrightarrow> ClientLookupUsers c ns \<in> set (calls w)"
      by auto
    from True obtain t where t: "twid (users w r) = Some t" "t \<noteq> 0"
      by (auto simp: int_truthy_def split: option.splits)
    have "by_mxid w (mxid (users w r)) = Some r
          \<and> (\<forall>t. twid (users w r) = Some t \<and> t \<noteq> 0 \<longrightarrow> by_twid w t = Some r) \<Longrightarrow>
        twid (users w' r) = Some t \<and> fst (get_by_twid e' t w') = Some r
          \<and> fst (get_by_mxid e' (mxid (users w' r)) create w') = Some r"
      using t u b k by (simp add: get_by_twid_def get_by_mxid_def)
    then show ?thesis using True u b k l by auto
  next
    case False
    with w4(5) obtain name i where k: "username (users w4 r) = Some name"
      "ClientLookupUsers (next_client w) [name] \<in> set (calls w4)"
      "twid (users w4 r) = Some i" "by_twid w4 = (by_twid w)(i \<mapsto> r)" by auto
    have "by_mxid w (mxid (users w r)) = Some r \<Longrightarrow>
        twid (users w' r) = Some i \<and> fst (get_by_twid e' i w') = Some r
          \<and> fst (get_by_mxid e' (mxid (users w' r)) create w') = Some r"
      using u b k by (simp add: get_by_twid_def get_by_mxid_def)
    then show ?thesis using False u b k l by auto
  qed
qed

theorem connect_binds_remote_id_witness:
  "connect env_ok 0 (Some ''auth'') (Some ''csrf'') world_alice = (Inr (), world_connected)
   \<and> \<not> int_truthy (twid (users world_alice 0))
   \<and> by_mxid world_alice (mxid (users world_alice 0)) = Some 0
   \<and> (\<exists>t. twid (users world_connected 0) = Some t
        \<and> fst (get_by_twid env_ok t world_connected) = Some 0
        \<and> fst (get_by_mxid env_ok (mxid (users world_connected 0)) False world_connected) = Some 0)
   \<and> connect env_ok 0 None None world_connected = (Inr (), world_reconnected)
   \<and> int_truthy (twid (users world_connected 0))
   \<and> by_twid world_connected 555 = Some 0
   \<and> twid (users world_reconnected 0) = twid (users world_connected 0)
   \<and> by_twid world_reconnected = by_twid world_connected"
proof -
  have a: "\<not> int_truthy (twid (users world_alice 0))"
    "by_mxid world_alice (mxid (users world_alice 0)) = Some 0"
    "\<forall>t. twid (users world_alice 0) = Some t \<and> t \<noteq> 0 \<longrightarrow> by_twid world_alice t = Some 0"
    by (simp_all add: world_alice_eq blank_user_def int_truthy_def)
  have b: "int_truthy (twid (users world_connected 0))" "by_twid world_connected 555 = Some 0"
    by (simp_all add: world_connected_eq int_truthy_def)
  show ?thesis
    using a b connect_alice_eq connect_again_eq
      connect_binds_remote_id [OF connect_alice_eq, of env_ok False]
      connect_binds_remote_id [OF connect_again_eq, of env_ok False]
    by simp
qed

text \<open>
  C8. When the three portal calls return normally, \<open>handle_message\<close> makes exactly these
  calls, in this order: it resolves the portal of (conversation id, remote id of the
  user, conversation type); it creates the room if and only if the portal has no room
  (\<open>not portal.mxid\<close>); it passes the message data and the request id to the portal.
  This holds in every state, so also for a second delivery of the same request id.
\<close>

theorem handle_message_routing:
  assumes "portal_get_error e (conversation_id evt, twid (users w r), conv_type (conversation evt)) = None"
    and "\<not> str_truthy (portal_mxid_of (conversation_id evt, twid (users w r), conv_type (conversation evt)) w)
         \<longrightarrow> (\<exists>room. create_matrix_room e
                (conversation_id evt, twid (users w r), conv_type (conversation evt)) = Inr room)"
    and "handle_twitter_message_error e
           (conversation_id evt, twid (users w r), conv_type (conversation evt))
           (message_data evt) (request_id evt) = None"
  shows "fst (handle_message e r evt w) = Inr ()
    \<and> calls (snd (handle_message e r evt w))
        = calls w
          @ [PortalGetByTwid (conversation_id evt, twid (users w r), conv_type (conversation evt))]
          @ (if str_truthy (portal_mxid_of
                  (conversation_id evt, twid (users w r), conv_type (conversation evt)) w)
             then []
             else [PortalCreateMatrixRoom
                     (conversation_id evt, twid (users w r), conv_type (conversation evt)) r])
          @ [PortalHandleTwitterMessage
               (conversation_id evt, twid (users w r), conv_type (conversation evt)) r
               (message_data evt) (request_id evt)]"
  using assms
  by (auto simp: handle_message_def portal_get_by_twid_def portal_mxid_of_def
      portal_create_matrix_room_def portal_handle_twitter_message_def log_call_def Let_def
      str_truthy_def split: option.splits sum.splits prod.splits if_splits)

theorem handle_message_routing_witness:
  "portal_get_error env_ok key_r1 = None
   \<and> create_matrix_room env_ok key_r1 = Inr ''!room:example.org''
   \<and> handle_twitter_message_error env_ok key_r1 ''hello'' ''r1'' = None
   \<and> \<not> str_truthy (portal_mxid_of key_r1 world_connected)
   \<and> calls world_delivered = calls world_connected
        @ [PortalGetByTwid key_r1, PortalCreateMatrixRoom key_r1 0,
           PortalHandleTwitterMessage key_r1 0 ''hello'' ''r1'']
   \<and> str_truthy (portal_mxid_of key_r1 world_delivered)
   \<and> calls (snd (handle_message env_ok 0 evt_r1 world_delivered)) = calls world_delivered
        @ [PortalGetByTwid key_r1, PortalHandleTwitterMessage key_r1 0 ''hello'' ''r1'']"
proof -
  have e: "portal_get_error env_ok key_r1 = None"
    "create_matrix_room env_ok key_r1 = Inr ''!room:example.org''"
    "handle_twitter_message_error env_ok key_r1 ''hello'' ''r1'' = None"
    by (simp_all add: env_ok_def)
  show ?thesis
    using e handle_message_routing [of env_ok evt_r1 world_connected 0]
      handle_message_routing [of env_ok evt_r1 world_delivered 0]
    by (simp add: evt_r1_key str_truthy_def world_delivered_def [symmetric])
qed

text \<open>
  C9. \<open>all_logged_in\<close> returns one element per record with credentials; where the
  cache had an object for the record's \<open>mxid\<close> before the call, the element is that
  object and not the freshly built one; and every element is the object the cache holds
  for its \<open>mxid\<close> after the call.
\<close>

theorem all_logged_in_prefers_cached:
  assumes "all_logged_in e w = (res, w')"
  shows "length res = length (db_all_logged_in (database w))
    \<and> (\<forall>i < length res. \<forall>r.
          by_mxid w (row_mxid (db_all_logged_in (database w) ! i)) = Some r \<longrightarrow> res ! i = r)
    \<and> (\<forall>i < length res.
          by_mxid w' (row_mxid (db_all_logged_in (database w) ! i)) = Some (res ! i))"
proof -
  let ?rows = "db_all_logged_in (database w)"
  obtain us w1 where a: "alloc_users e ?rows (log_call DbAllLoggedIn w) = (us, w1)"
    by (cases "alloc_users e ?rows (log_call DbAllLoggedIn w)") auto
  from assms a have l: "all_logged_in_loop us w1 = (res, w')"
    by (simp add: all_logged_in_def)
  from alloc_users_props[OF a] have p: "length us = length ?rows"
    "by_mxid w1 = by_mxid w"
    "\<forall>i < length ?rows. mxid (users w1 (us ! i)) = row_mxid (?rows ! i)"
    by (auto simp: log_call_def)
  from all_logged_in_loop_props[OF l] have q: "length res = length us"
    "\<forall>k r. by_mxid w1 k = Some r \<longrightarrow> by_mxid w' k = Some r"
    "\<forall>i < length us. by_mxid w' (mxid (users w1 (us ! i))) = Some (res ! i)" by auto
  have len: "length res = length ?rows" using p(1) q(1) by simp
  have after: "\<forall>i < length res. by_mxid w' (row_mxid (?rows ! i)) = Some (res ! i)"
    using p(1) p(3) q(1) q(3) by simp
  have pref: "\<forall>i < length res. \<forall>r. by_mxid w (row_mxid (?rows ! i)) = Some r \<longrightarrow> res ! i = r"
  proof (intro allI impI)
    fix i r assume i: "i < length res" and c: "by_mxid w (row_mxid (?rows ! i)) = Some r"
    from c p(2) q(2) have "by_mxid w' (row_mxid (?rows ! i)) = Some r" by simp
    with after i show "res ! i = r" by simp
  qed
  from len pref after show ?thesis by blast
qed

theorem all_logged_in_witness:
  "all_logged_in env_ok world_connected = ([0], snd (all_logged_in env_ok world_connected))
   \<and> length [0::nat] = length (db_all_logged_in (database world_connected))
   \<and> by_mxid world_connected (row_mxid (db_all_logged_in (database world_connected) ! 0)) = Some 0
   \<and> next_user (snd (all_logged_in env_ok world_connected)) = 2"
proof -
  have rows: "db_all_logged_in (database world_connected)
     = [\<lparr>row_mxid = alice, row_twid = Some 555, row_auth_token = Some ''auth'',
        row_csrf_token = Some ''csrf'', row_poll_cursor = None, row_notice_room = None\<rparr>]"
    by (simp add: world_connected_eq db_all_logged_in_def)
  have c: "by_mxid world_connected alice = Some 0" by (simp add: world_connected_eq)
  obtain res w' where r: "all_logged_in env_ok world_connected = (res, w')"
    by (cases "all_logged_in env_ok world_connected") auto
  from all_logged_in_prefers_cached [OF r] rows c
  have "length res = 1" "res ! 0 = 0" by auto
  then have "res = [0]" by (cases res) auto
  moreover have "next_user (snd (all_logged_in env_ok world_connected)) = 2"
    by (simp add: all_logged_in_def db_all_logged_in_def world_connected_eq model_defs example_defs)
  ultimately show ?thesis using r rows c by simp
qed

text \<open>
  C10, as stated, fails in its second half: \<open>except Exception\<close> does not catch an
  exception outside \<open>Exception\<close>. In the run below the task is cancelled during the
  probe, and \<open>is_logged_in\<close> raises the \<open>CancelledError\<close> instead of returning
  \<open>False\<close>.
\<close>

theorem is_logged_in_cancelled_counterexample:
  "client (users world_connected 0) = Some 0
   \<and> get_user_identifier env_cancelled (tokens (clients world_connected 0))
       = Inl (BaseRaised ''CancelledError'')
   \<and> fst (is_logged_in env_cancelled 0 world_connected) = Inl (BaseRaised ''CancelledError'')
   \<and> fst (is_logged_in env_cancelled 0 world_connected) \<noteq> Inr (PyBool False)"
  by (simp add: is_logged_in_def is_logged_in_try_def world_connected_eq env_cancelled_def
      env_ok_def)

text \<open>
  C10, amended. On a user with no client, \<open>is_logged_in\<close> returns \<open>None\<close>, which is not
  the boolean \<open>False\<close>, and makes no call. On a user with a client: when the probe raises
  an instance of \<open>Exception\<close> the result is the boolean \<open>False\<close>; when it raises an
  exception outside \<open>Exception\<close> (a cancellation, a keyboard interrupt) \<open>is_logged_in\<close>
  raises it; when it returns, the result is the boolean saying whether the identifier is
  not \<open>None\<close>. So \<open>is_logged_in\<close> raises only exceptions outside \<open>Exception\<close>.
\<close>

theorem is_logged_in_result:
  "(client (users w r) = None \<longrightarrow>
      is_logged_in e r w = (Inr PyNone, w) \<and> fst (is_logged_in e r w) \<noteq> Inr (PyBool False))
   \<and> (\<forall>c err. client (users w r) = Some c
         \<and> get_user_identifier e (tokens (clients w c)) = Inl err \<and> is_exception err
        \<longrightarrow> fst (is_logged_in e r w) = Inr (PyBool False))
   \<and> (\<forall>c err. client (users w r) = Some c
         \<and> get_user_identifier e (tokens (clients w c)) = Inl err \<and> \<not> is_exception err
        \<longrightarrow> fst (is_logged_in e r w) = Inl err)
   \<and> (\<forall>c ident. client (users w r) = Some c
         \<and> get_user_identifier e (tokens (clients w c)) = Inr ident
        \<longrightarrow> fst (is_logged_in e r w) = Inr (PyBool (ident \<noteq> None)))
   \<and> (\<forall>err. fst (is_logged_in e r w) = Inl err \<longrightarrow> \<not> is_exception err)"
  by (auto simp: is_logged_in_def is_logged_in_try_def split: option.splits sum.splits)

theorem is_logged_in_witness:
  "client (users world_alice 0) = None
   \<and> fst (is_logged_in env_ok 0 world_alice) = Inr PyNone
   \<and> client (users world_connected 0) = Some 0
   \<and> get_user_identifier env_bad_probe (tokens (clients world_connected 0)) = Inl (Raised ''AuthError'')
   \<and> is_exception (Raised ''AuthError'')
   \<and> fst (is_logged_in env_bad_probe 0 world_connected) = Inr (PyBool False)
   \<and> get_user_identifier env_cancelled (tokens (clients world_connected 0))
       = Inl (BaseRaised ''CancelledError'')
   \<and> \<not> is_exception (BaseRaised ''CancelledError'')
   \<and> fst (is_logged_in env_cancelled 0 world_connected) = Inl (BaseRaised ''CancelledError'')
   \<and> get_user_identifier env_ok (tokens (clients world_connected 0)) = Inr (Some ''555'')
   \<and> fst (is_logged_in env_ok 0 world_connected) = Inr (PyBool True)"
proof -
  have a: "client (users world_alice 0) = None"
    by (simp add: world_alice_eq blank_user_def)
  have b: "client (users world_connected 0) = Some 0"
    "get_user_identifier env_bad_probe (tokens (clients world_connected 0)) = Inl (Raised ''AuthError'')"
    "get_user_identifier env_cancelled (tokens (clients world_connected 0))
       = Inl (BaseRaised ''CancelledError'')"
    "get_user_identifier env_ok (tokens (clients world_connected 0)) = Inr (Some ''555'')"
    by (simp_all add: world_connected_eq env_bad_probe_def env_cancelled_def env_ok_def)
  have x: "is_exception (Raised ''AuthError'')" "\<not> is_exception (BaseRaised ''CancelledError'')"
    by simp_all
  have r1: "fst (is_logged_in env_ok 0 world_alice) = Inr PyNone"
    using a is_logged_in_result [of world_alice 0 env_ok, THEN conjunct1] by simp
  have r2: "fst (is_logged_in env_bad_probe 0 world_connected) = Inr (PyBool False)"
    using b(1) b(2) x(1)
      is_logged_in_result [of world_connected 0 env_bad_probe, THEN conjunct2, THEN conjunct1]
    by blast
  have r3: "fst (is_logged_in env_cancelled 0 world_connected) = Inl (BaseRaised ''CancelledError'')"
    using b(1) b(3) x(2)
      is_logged_in_result [of world_connected 0 env_cancelled, THEN conjunct2, THEN conjunct2,
        THEN conjunct1]
    by blast
  have r4: "fst (is_logged_in env_ok 0 world_connected) = Inr (PyBool (Some ''555'' \<noteq> None))"
    using b(1) b(4)
      is_logged_in_result [of world_connected 0 env_ok, THEN conjunct2, THEN conjunct2,
        THEN conjunct2, THEN conjunct1]
    by blast
  from a b x r1 r2 r3 r4 show ?thesis by simp
qed

end
